theory Spec2Isabelle
  imports Complex_Main "HOL-Library.Multiset"
begin

section \<open>Secure storage (AsyncStorage) and its keys\<close>

text \<open>
  The mobile client keeps its credentials in AsyncStorage, a persistent string-to-string
  dictionary. The keys come from \<^verbatim>\<open>STORAGE_KEYS\<close> in \<^verbatim>\<open>utils/constants\<close>. Storage
  is a map: \<^verbatim>\<open>getItem\<close> of a missing key is \<^verbatim>\<open>null\<close> (\<open>None\<close>). In the refresh
  interceptor a storage operation is taken to succeed; \<^verbatim>\<open>logout\<close> takes the outcome of
  its \<^verbatim>\<open>multiRemove\<close> as an argument.
\<close>

type_synonym async_storage = "string \<rightharpoonup> string"

definition AUTH_TOKEN :: string where
  "AUTH_TOKEN = ''auth_token''"

definition REFRESH_TOKEN :: string where
  "REFRESH_TOKEN = ''refresh_token''"

definition USER_DATA :: string where
  "USER_DATA = ''user_data''"

definition setItem :: "string \<Rightarrow> string \<Rightarrow> async_storage \<Rightarrow> async_storage" where
  "setItem k v st = st(k \<mapsto> v)"

definition multiRemove :: "string list \<Rightarrow> async_storage \<Rightarrow> async_storage" where
  "multiRemove ks st = fold (\<lambda>k m. m(k := None)) ks st"

section \<open>The authentication store (mobile, store/authStore)\<close>

text \<open>
  \<^verbatim>\<open>useAuthStore\<close> is a Zustand store. A \<^verbatim>\<open>User\<close> object is carried as its JSON text
  (the form in which it is written to storage); none of its fields is inspected by the
  operations modelled here.
\<close>

type_synonym user = string

record AuthTokens =
  accessToken :: string
  refreshToken :: string

record AuthState =
  user :: "user option"
  tokens :: "AuthTokens option"
  isAuthenticated :: bool
  isLoading :: bool
  error :: "string option"

text \<open>
  The outcome of an awaited call: it resolves with a value or rejects with an error.
\<close>

datatype ('e, 'a) settled = Fulfilled 'a | Rejected 'e

text \<open>
  \<^verbatim>\<open>logout\<close>: the server call \<^verbatim>\<open>authService.logout()\<close> is awaited inside a
  \<^verbatim>\<open>try\<close> whose \<^verbatim>\<open>catch\<close> is empty, so its rejection is swallowed; as long as the
  call has not settled, \<^verbatim>\<open>logout\<close> stays suspended at the \<^verbatim>\<open>await\<close> and nothing has
  changed. \<^verbatim>\<open>AsyncStorage.multiRemove\<close> is awaited outside the \<^verbatim>\<open>try\<close>: when it
  rejects, \<^verbatim>\<open>logout\<close> rejects with its error before the store is reset (the stored
  values are then taken to be as before). Only when it has succeeded is the store reset.

  The first argument is the outcome of the server call, \<open>None\<close> when it never settles;
  the second is the outcome of \<^verbatim>\<open>multiRemove\<close>. The result is the outcome of
  \<^verbatim>\<open>logout\<close> itself (\<open>None\<close> when it never returns) with the storage and the store.
\<close>

definition logout ::
  "('e, unit) settled option \<Rightarrow> ('e, unit) settled \<Rightarrow> async_storage \<times> AuthState
     \<Rightarrow> ('e, unit) settled option \<times> async_storage \<times> AuthState" where
  "logout server removal = (\<lambda>(st, a).
     let after_try =
           (case removal of
              Rejected e \<Rightarrow> (Some (Rejected e), st, a)
            | Fulfilled _ \<Rightarrow>
                (Some (Fulfilled ()),
                 multiRemove [AUTH_TOKEN, REFRESH_TOKEN, USER_DATA] st,
                 a\<lparr>user := None, tokens := None, isAuthenticated := False, error := None\<rparr>))
     in (case server of
           None \<Rightarrow> (None, st, a)
         | Some (Fulfilled _) \<Rightarrow> after_try
         | Some (Rejected _) \<Rightarrow> after_try))"

section \<open>The API client and its token-refresh interceptor (mobile, services/api)\<close>

text \<open>
  A request configuration as the response interceptor sees it: its identity, the
  \<^verbatim>\<open>_retry\<close> flag and the \<^verbatim>\<open>Authorization\<close> header.
\<close>

record request =
  rid :: nat
  retry :: bool
  authorization :: "string option"

text \<open>
  Errors: an \<^verbatim>\<open>AxiosError\<close> carries the response status when a response was received;
  \<^verbatim>\<open>Error\<close> is a plain JavaScript error with its message.
\<close>

datatype api_error = AxiosError "nat option" | Error string

fun status :: "api_error \<Rightarrow> nat option" where
  "status (AxiosError st) = st"
| "status (Error _) = None"

definition bearer :: "string \<Rightarrow> string" where
  "bearer token = ''Bearer '' @ token"

text \<open>
  The request interceptor attaches the stored access token when there is one (an empty
  string is falsy in JavaScript).
\<close>

definition request_interceptor :: "async_storage \<Rightarrow> request \<Rightarrow> request" where
  "request_interceptor st config =
     (case st AUTH_TOKEN of
        None \<Rightarrow> config
      | Some token \<Rightarrow> if token \<noteq> [] then config\<lparr>authorization := Some (bearer token)\<rparr> else config)"

text \<open>
  The client runs on a single-threaded event loop: code between two \<^verbatim>\<open>await\<close>s runs
  without interruption, and other handlers may run while a handler is suspended at an
  \<^verbatim>\<open>await\<close>. A response-error handler that has entered the refresh branch is a task,
  suspended at one of the five \<^verbatim>\<open>await\<close>s of the branch:
  \<^item> \<open>AwaitGetItem\<close>: reading the stored refresh token;
  \<^item> \<open>AwaitPost rt\<close>: the refresh call, sent with refresh token \<open>rt\<close>, is in flight;
  \<^item> \<open>AwaitSetAuth a r\<close>: writing the new access token \<open>a\<close>;
  \<^item> \<open>AwaitSetRefresh a r\<close>: writing the new refresh token \<open>r\<close>;
  \<^item> \<open>AwaitMultiRemove e\<close>: in the \<^verbatim>\<open>catch\<close> block, removing the credentials.
  The effect of a storage operation takes place when the operation completes, in one step
  with the code that follows it up to the next \<^verbatim>\<open>await\<close>.
\<close>

datatype pc =
    AwaitGetItem
  | AwaitPost string
  | AwaitSetAuth string string
  | AwaitSetRefresh string string
  | AwaitMultiRemove api_error

record refresh_task =
  treq :: request
  tpc :: pc

text \<open>
  The module state (\<^verbatim>\<open>isRefreshing\<close>, \<^verbatim>\<open>failedQueue\<close>), the storage, the suspended
  tasks, and three logs of what the interceptor has done: the refresh calls sent (with the
  refresh token of each), the requests reissued through \<^verbatim>\<open>api(originalRequest)\<close>, and
  the requests whose promise was rejected (with the error).
\<close>

record coordinator =
  storage :: async_storage
  isRefreshing :: bool
  failedQueue :: "request list"
  tasks :: "refresh_task list"
  refreshCalls :: "string list"
  reissued :: "request list"
  rejected :: "(request \<times> api_error) list"

definition initial :: "async_storage \<Rightarrow> coordinator" where
  "initial st = \<lparr>storage = st, isRefreshing = False, failedQueue = [], tasks = [],
                 refreshCalls = [], reissued = [], rejected = []\<rparr>"

text \<open>
  \<^verbatim>\<open>processQueue(error, token)\<close>: every waiter is rejected with the error when there is
  one; otherwise it is resolved with the token, and its \<^verbatim>\<open>resolve\<close> callback sets the
  header and reissues the request. The queue is then emptied.
\<close>

definition processQueue :: "api_error option \<Rightarrow> string option \<Rightarrow> coordinator \<Rightarrow> coordinator" where
  "processQueue err token s =
     (case err of
        Some e \<Rightarrow>
          s\<lparr>rejected := rejected s @ map (\<lambda>q. (q, e)) (failedQueue s), failedQueue := []\<rparr>
      | None \<Rightarrow>
          s\<lparr>reissued := reissued s @
                map (\<lambda>q. q\<lparr>authorization :=
                             Some (bearer (case token of None \<Rightarrow> ''null'' | Some tk \<Rightarrow> tk))\<rparr>)
                    (failedQueue s),
            failedQueue := []\<rparr>)"

definition set_task :: "nat \<Rightarrow> refresh_task \<Rightarrow> coordinator \<Rightarrow> coordinator" where
  "set_task i t s = s\<lparr>tasks := (tasks s)[i := t]\<rparr>"

definition drop_task :: "nat \<Rightarrow> coordinator \<Rightarrow> coordinator" where
  "drop_task i s = s\<lparr>tasks := take i (tasks s) @ drop (Suc i) (tasks s)\<rparr>"

text \<open>
  Entering the \<^verbatim>\<open>catch\<close> block with \<^verbatim>\<open>refreshError = e\<close>: the queue is rejected, then
  the handler suspends at \<^verbatim>\<open>multiRemove\<close>.
\<close>

definition catch_refresh_error :: "nat \<Rightarrow> refresh_task \<Rightarrow> api_error \<Rightarrow> coordinator \<Rightarrow> coordinator" where
  "catch_refresh_error i t e s =
     set_task i (t\<lparr>tpc := AwaitMultiRemove e\<rparr>) (processQueue (Some e) None s)"

text \<open>The awaited storage operation of task \<open>i\<close> completes and the task runs on.\<close>

definition task_storage_done :: "nat \<Rightarrow> refresh_task \<Rightarrow> coordinator \<Rightarrow> coordinator" where
  "task_storage_done i t s =
     (case tpc t of
        AwaitGetItem \<Rightarrow>
          (case storage s REFRESH_TOKEN of
             None \<Rightarrow> catch_refresh_error i t (Error ''No refresh token'') s
           | Some rt \<Rightarrow>
               if rt = [] then catch_refresh_error i t (Error ''No refresh token'') s
               else set_task i (t\<lparr>tpc := AwaitPost rt\<rparr>)
                      (s\<lparr>refreshCalls := refreshCalls s @ [rt]\<rparr>))
      | AwaitPost rt \<Rightarrow> s
      | AwaitSetAuth a r \<Rightarrow>
          set_task i (t\<lparr>tpc := AwaitSetRefresh a r\<rparr>)
            (s\<lparr>storage := setItem AUTH_TOKEN a (storage s)\<rparr>)
      | AwaitSetRefresh a r \<Rightarrow>
          (let s1 = s\<lparr>storage := setItem REFRESH_TOKEN r (storage s)\<rparr>;
               orig = (treq t)\<lparr>authorization := Some (bearer a)\<rparr>;
               s2 = processQueue None (Some a) s1;
               s3 = s2\<lparr>reissued := reissued s2 @ [orig]\<rparr>
           in drop_task i (s3\<lparr>isRefreshing := False\<rparr>))
      | AwaitMultiRemove e \<Rightarrow>
          (let s1 = s\<lparr>storage := multiRemove [AUTH_TOKEN, REFRESH_TOKEN, USER_DATA] (storage s)\<rparr>;
               s2 = s1\<lparr>rejected := rejected s1 @ [(treq t, e)]\<rparr>
           in drop_task i (s2\<lparr>isRefreshing := False\<rparr>)))"

text \<open>
  What can happen next:
  \<^item> \<open>ResponseError err req\<close>: a response error for request \<open>req\<close> reaches the response
    interceptor;
  \<^item> \<open>StorageDone i\<close>: the storage operation awaited by task \<open>i\<close> completes;
  \<^item> \<open>RefreshResolved i a r\<close>, \<open>RefreshRejected i e\<close>: the refresh call of task \<open>i\<close>
    resolves with the pair \<open>{accessToken = a, refreshToken = r}\<close>, or rejects with \<open>e\<close>;
  \<^item> \<open>ExternalSetItem k v\<close>, \<open>ExternalMultiRemove ks\<close>: another module writes the storage
    (login and register write the tokens, logout removes them).
  An event that does not apply to the state leaves it as it is.
\<close>

datatype event =
    ResponseError api_error request
  | StorageDone nat
  | RefreshResolved nat string string
  | RefreshRejected nat api_error
  | ExternalSetItem string string
  | ExternalMultiRemove "string list"

fun step :: "event \<Rightarrow> coordinator \<Rightarrow> coordinator" where
  "step (ResponseError err req) s =
     (if status err = Some 401 \<and> \<not> retry req then
        (if isRefreshing s then s\<lparr>failedQueue := failedQueue s @ [req]\<rparr>
         else s\<lparr>isRefreshing := True,
                tasks := tasks s @ [\<lparr>treq = req\<lparr>retry := True\<rparr>, tpc = AwaitGetItem\<rparr>]\<rparr>)
      else s\<lparr>rejected := rejected s @ [(req, err)]\<rparr>)"
| "step (StorageDone i) s =
     (if i < length (tasks s) then task_storage_done i (tasks s ! i) s else s)"
| "step (RefreshResolved i a r) s =
     (if i < length (tasks s) then
        (case tpc (tasks s ! i) of
           AwaitPost _ \<Rightarrow> set_task i ((tasks s ! i)\<lparr>tpc := AwaitSetAuth a r\<rparr>) s
         | _ \<Rightarrow> s)
      else s)"
| "step (RefreshRejected i e) s =
     (if i < length (tasks s) then
        (case tpc (tasks s ! i) of
           AwaitPost _ \<Rightarrow> catch_refresh_error i (tasks s ! i) e s
         | _ \<Rightarrow> s)
      else s)"
| "step (ExternalSetItem k v) s = s\<lparr>storage := setItem k v (storage s)\<rparr>"
| "step (ExternalMultiRemove ks) s = s\<lparr>storage := multiRemove ks (storage s)\<rparr>"

definition run :: "event list \<Rightarrow> coordinator \<Rightarrow> coordinator" where
  "run es s = fold step es s"


text \<open>
  The coordinator is busy exactly when one handler is inside the refresh branch.
\<close>

definition coordinator_inv :: "coordinator \<Rightarrow> bool" where
  "coordinator_inv s = (if isRefreshing s then length (tasks s) = 1 else tasks s = [])"

text \<open>
  Events that come from outside the suspended refresh handler: responses of other
  requests and storage writes of other modules.
\<close>

fun bystander :: "event \<Rightarrow> bool" where
  "bystander (ResponseError _ _) = True"
| "bystander (ExternalSetItem _ _) = True"
| "bystander (ExternalMultiRemove _) = True"
| "bystander _ = False"

fun is_response_error :: "event \<Rightarrow> bool" where
  "is_response_error (ResponseError _ _) = True"
| "is_response_error _ = False"

text \<open>
  Only login and register store a refresh token from outside the interceptor
  (\<^verbatim>\<open>AsyncStorage.setItem(STORAGE_KEYS.REFRESH_TOKEN, tokens.refreshToken)\<close>).
\<close>

fun writes_refresh_token :: "event \<Rightarrow> bool" where
  "writes_refresh_token (ExternalSetItem k v) = (k = REFRESH_TOKEN)"
| "writes_refresh_token _ = False"

text \<open>
  No refresh token is stored and no handler is at or past the refresh call: from such a
  state a refresh call needs a refresh token to be stored first.
\<close>

definition no_refresh_possible :: "coordinator \<Rightarrow> bool" where
  "no_refresh_possible s =
     (storage s REFRESH_TOKEN = None \<and>
      list_all (\<lambda>t. case tpc t of AwaitGetItem \<Rightarrow> True | AwaitMultiRemove _ \<Rightarrow> True | _ \<Rightarrow> False)
        (tasks s))"

text \<open>
  A reader of the credential store, as \<^verbatim>\<open>restoreSession\<close> reads it:
  \<^verbatim>\<open>AsyncStorage.multiGet\<close> returns the key-value pairs of the keys asked for.
\<close>

definition multiGet :: "string list \<Rightarrow> async_storage \<Rightarrow> (string \<times> string option) list" where
  "multiGet ks st = map (\<lambda>k. (k, st k)) ks"

section \<open>The chat assistant (web, components/TravelChat)\<close>

text \<open>
  The component state of \<^verbatim>\<open>TravelChat\<close>: the \<^verbatim>\<open>useState\<close> cells that the message and
  confirmation handlers read and write. Voice input and output (\<^verbatim>\<open>isListening\<close>,
  \<^verbatim>\<open>isSpeaking\<close>, \<^verbatim>\<open>voiceEnabled\<close>, \<^verbatim>\<open>speakText\<close>) touch none of these cells and are
  left out. A message carries the time at which it was created (\<^verbatim>\<open>new Date()\<close>), which
  the handlers receive as an argument.
\<close>

text \<open>
  A JavaScript string is the list of its UTF-16 code units. The string literals of the
  source are all ASCII; \<open>js\<close> turns such a literal into its code units.
\<close>

type_synonym js_string = "nat list"

definition js :: "string \<Rightarrow> js_string" where
  "js lit = map of_char lit"

datatype role = RoleUser | RoleAssistant | RoleSystem

record ChatMessage =
  role :: role
  content :: js_string
  timestamp :: nat

text \<open>
  \<^verbatim>\<open>ExtractedParams\<close> is a JSON object with optional fields (origin, destination,
  departure date, return date, passengers, budget, cuisine): a map from field names to
  values. Numbers are carried as integers; the component does no arithmetic on them.
\<close>

datatype param_value = Str string | Num int | Null

type_synonym ExtractedParams = "string \<rightharpoonup> param_value"

record ChatState =
  messages :: "ChatMessage list"
  input :: js_string
  loading :: bool
  planning :: bool
  extractedParams :: ExtractedParams
  paramsComplete :: bool

text \<open>The JSON body posted to \<^verbatim>\<open>/api/agents/chat\<close>.\<close>

record ChatRequest =
  body_message :: js_string
  body_conversation :: "(role \<times> js_string) list"
  body_extracted_params :: ExtractedParams
  body_confirmed :: bool

text \<open>
  A JSON field that the code prints or tests: it may be absent (\<^verbatim>\<open>undefined\<close>),
  \<^verbatim>\<open>null\<close>, or hold a value.
\<close>

datatype 'a json_field = FieldAbsent | FieldNull | FieldValue 'a

text \<open>
  The parsed JSON answer \<^verbatim>\<open>data\<close>. The code only tests \<^verbatim>\<open>success\<close>,
  \<^verbatim>\<open>extracted_params\<close>, \<^verbatim>\<open>params_complete\<close> and \<^verbatim>\<open>planning_result\<close> for
  truthiness: \<open>success\<close> is the truth value of the field, and an optional field is
  \<open>None\<close> when its value is falsy (absent, \<^verbatim>\<open>null\<close>, \<^verbatim>\<open>false\<close>, \<^verbatim>\<open>0\<close> or the empty
  string) and \<open>Some\<close> of the value otherwise. \<open>resp_error\<close> is the field \<^verbatim>\<open>error\<close>,
  which is printed into a message.
\<close>

record 'p ChatResponse =
  success :: bool
  reply :: js_string
  extracted_params :: "ExtractedParams option"
  params_complete :: "bool option"
  resp_error :: "js_string json_field"
  planning_result :: "'p option"

text \<open>
  The outcome of \<^verbatim>\<open>fetch\<close> followed by \<^verbatim>\<open>response.json()\<close>: an answer, or an exception
  (the server cannot be reached, or the body is not JSON) that lands in \<^verbatim>\<open>catch\<close>.
\<close>

datatype 'p fetched = Responded "'p ChatResponse" | Unreachable

text \<open>
  \<^verbatim>\<open>String.prototype.trim\<close> removes white space and line terminators at both ends.
  By ECMAScript these are the code units U+0009 (tab), U+000B, U+000C, U+FEFF, the space
  separators U+0020, U+00A0, U+1680, U+2000 to U+200A, U+202F, U+205F and U+3000, and
  the line terminators U+000A, U+000D, U+2028 and U+2029.
\<close>

definition whitespace :: "nat \<Rightarrow> bool" where
  "whitespace u =
     (u \<in> set [0x09, 0x0A, 0x0B, 0x0C, 0x0D, 0x20, 0xA0, 0x1680, 0x2028, 0x2029,
                0x202F, 0x205F, 0x3000, 0xFEFF]
      \<or> (0x2000 \<le> u \<and> u \<le> 0x200A))"

definition trim :: "js_string \<Rightarrow> js_string" where
  "trim t = rev (dropWhile whitespace (rev (dropWhile whitespace t)))"

text \<open>
  \<^verbatim>\<open>sendMessage\<close> up to its \<^verbatim>\<open>await fetch\<close>: nothing happens for a text that trims to
  the empty string (\<open>None\<close>); otherwise the user's message is appended, the input is
  cleared, \<^verbatim>\<open>loading\<close> is set and the request is sent. The conversation sent is the
  \<^verbatim>\<open>messages\<close> value the callback closed over, without the new message.
\<close>

definition sendMessage_begin :: "js_string \<Rightarrow> nat \<Rightarrow> ChatState \<Rightarrow> (ChatState \<times> ChatRequest) option" where
  "sendMessage_begin text now s =
     (if trim text = [] then None
      else Some
        (s\<lparr>messages := messages s @ [\<lparr>role = RoleUser, content = trim text, timestamp = now\<rparr>],
           input := [], loading := True\<rparr>,
         \<lparr>body_message = trim text,
          body_conversation =
            map (\<lambda>m. (role m, content m)) (filter (\<lambda>m. role m \<noteq> RoleSystem) (messages s)),
          body_extracted_params = extractedParams s,
          body_confirmed = False\<rparr>))"

text \<open>\<^verbatim>\<open>sendMessage\<close> from the answer on, with its \<^verbatim>\<open>catch\<close> and \<^verbatim>\<open>finally\<close>.\<close>

definition sendMessage_end :: "'p fetched \<Rightarrow> nat \<Rightarrow> ChatState \<Rightarrow> ChatState" where
  "sendMessage_end res now s =
     (case res of
        Responded data \<Rightarrow>
          (if success data then
             s\<lparr>messages := messages s @ [\<lparr>role = RoleAssistant, content = reply data, timestamp = now\<rparr>],
               extractedParams := (case extracted_params data of None \<Rightarrow> Map.empty | Some ps \<Rightarrow> ps),
               paramsComplete := (case params_complete data of None \<Rightarrow> False | Some b \<Rightarrow> b),
               loading := False\<rparr>
           else
             s\<lparr>messages := messages s @
                  [\<lparr>role = RoleAssistant,
                    content = js ''Sorry, I encountered an error: ''
                      @ (case resp_error data of
                           FieldAbsent \<Rightarrow> js ''undefined''
                         | FieldNull \<Rightarrow> js ''null''
                         | FieldValue e \<Rightarrow> e)
                      @ js ''. Please try again.'',
                    timestamp = now\<rparr>],
               loading := False\<rparr>)
      | Unreachable \<Rightarrow>
          s\<lparr>messages := messages s @
               [\<lparr>role = RoleAssistant,
                 content = js ''Sorry, I could not reach the server. Please try again.'',
                 timestamp = now\<rparr>],
            loading := False\<rparr>)"

text \<open>
  A whole call of \<^verbatim>\<open>sendMessage\<close>: how its promise settles, the state it leaves and the
  requests it has sent to the backend. Every exception is caught inside, so the promise is
  always fulfilled.
\<close>

definition sendMessage ::
  "js_string \<Rightarrow> nat \<Rightarrow> 'p fetched \<Rightarrow> nat \<Rightarrow> ChatState \<Rightarrow> ('e, unit) settled \<times> ChatState \<times> ChatRequest list" where
  "sendMessage text now res now' s =
     (case sendMessage_begin text now s of
        None \<Rightarrow> (Fulfilled (), s, [])
      | Some (s1, body) \<Rightarrow> (Fulfilled (), sendMessage_end res now' s1, [body]))"

text \<open>
  \<^verbatim>\<open>handleConfirmPlan\<close> up to its \<^verbatim>\<open>await fetch\<close>, and from the answer on. The second
  component of the result of \<open>handleConfirmPlan_end\<close> is the plan handed to
  \<^verbatim>\<open>onPlanReady\<close>, if any.
\<close>

definition handleConfirmPlan_begin :: "nat \<Rightarrow> ChatState \<Rightarrow> ChatState \<times> ChatRequest" where
  "handleConfirmPlan_begin now s =
     (s\<lparr>planning := True,
        messages := messages s @
          [\<lparr>role = RoleSystem,
            content = js ''Starting AI travel planning with your parameters...'',
            timestamp = now\<rparr>]\<rparr>,
      \<lparr>body_message = [], body_conversation = [],
       body_extracted_params = extractedParams s, body_confirmed = True\<rparr>)"

text \<open>
  The message of a failed planning call, with \<^verbatim>\<open>data.error || 'Unknown error'\<close>: an
  absent, \<^verbatim>\<open>null\<close> or empty error text gives \<^verbatim>\<open>Unknown error\<close>.
\<close>

definition planning_failed :: "js_string json_field \<Rightarrow> js_string" where
  "planning_failed e =
     js ''Planning failed: ''
       @ (case e of
            FieldAbsent \<Rightarrow> js ''Unknown error''
          | FieldNull \<Rightarrow> js ''Unknown error''
          | FieldValue m \<Rightarrow> if m = [] then js ''Unknown error'' else m)
       @ js ''. Please try again.''"

definition handleConfirmPlan_end :: "'p fetched \<Rightarrow> nat \<Rightarrow> ChatState \<Rightarrow> ChatState \<times> 'p option" where
  "handleConfirmPlan_end res now s =
     (case res of
        Responded data \<Rightarrow>
          (case (if success data then planning_result data else None) of
             Some plan \<Rightarrow>
               (s\<lparr>messages := messages s @
                    [\<lparr>role = RoleAssistant,
                      content = js ''Your trip has been planned! Scroll down to see the full results.'',
                      timestamp = now\<rparr>],
                  planning := False\<rparr>,
                Some plan)
           | None \<Rightarrow>
               (s\<lparr>messages := messages s @
                    [\<lparr>role = RoleAssistant, content = planning_failed (resp_error data),
                      timestamp = now\<rparr>],
                  planning := False\<rparr>,
                None))
      | Unreachable \<Rightarrow>
          (s\<lparr>messages := messages s @
                [\<lparr>role = RoleAssistant,
                  content = js ''Failed to connect to the planner. Please try again.'',
                  timestamp = now\<rparr>],
              planning := False\<rparr>,
           None))"

text \<open>
  A whole call of \<^verbatim>\<open>handleConfirmPlan\<close>: how it settles, the state it leaves, the
  planning requests it has sent and the plan handed to \<^verbatim>\<open>onPlanReady\<close>.
\<close>

definition handleConfirmPlan ::
  "nat \<Rightarrow> 'p fetched \<Rightarrow> nat \<Rightarrow> ChatState
     \<Rightarrow> ('e, unit) settled \<times> ChatState \<times> ChatRequest list \<times> 'p option" where
  "handleConfirmPlan now res now' s =
     (case handleConfirmPlan_begin now s of
        (s1, body) \<Rightarrow>
          (case handleConfirmPlan_end res now' s1 of
             (s2, plan) \<Rightarrow> (Fulfilled (), s2, [body], plan)))"

text \<open>
  The confirm button is part of the page only under \<^verbatim>\<open>paramsComplete && !planning\<close>,
  and it is disabled while \<^verbatim>\<open>planning\<close>. A click on it runs \<^verbatim>\<open>handleConfirmPlan\<close>;
  without the button there is nothing to click (\<open>None\<close>).
\<close>

definition confirm_button_rendered :: "ChatState \<Rightarrow> bool" where
  "confirm_button_rendered s = (paramsComplete s \<and> \<not> planning s)"

definition click_confirm :: "nat \<Rightarrow> ChatState \<Rightarrow> (ChatState \<times> ChatRequest) option" where
  "click_confirm now s =
     (if confirm_button_rendered s \<and> \<not> planning s then Some (handleConfirmPlan_begin now s)
      else None)"

text \<open>
  The errors that the specification names for the dialogue operations, and the merge of
  extracted fields in the specification's words (the latest extraction overwrites the
  fields it supplies, the other fields persist). The component has neither; they are
  what its behaviour is compared with.
\<close>

datatype dialogue_error = EmptyInput | InvalidTransition

definition spec_merge :: "ExtractedParams \<Rightarrow> ExtractedParams \<Rightarrow> ExtractedParams" where
  "spec_merge prior latest = prior ++ latest"

section \<open>Search results and their ranking (mobile, types and result screens)\<close>

text \<open>
  The score records that the server attaches to search results, as \<^verbatim>\<open>types/index.ts\<close>
  declares them, and the fields of \<^verbatim>\<open>Flight\<close> and \<^verbatim>\<open>Hotel\<close> that the result screens
  compare. A JavaScript number is a real here: the screens only subtract two numbers and
  look at the sign of the difference.
\<close>

datatype Tier = excellent | good | fair | poor

record GoalEvaluation =
  total_utility :: real
  budget_constraint_met :: bool
  price_score :: real
  duration_score :: real
  stops_score :: real
  recommendation :: Tier

record Flight =
  flight_id :: nat
  price :: real
  duration_minutes :: "real option"
  stops :: real
  goal_evaluation :: "GoalEvaluation option"

record UtilityScore =
  total_score :: real
  price_value :: real
  location_score :: real
  rating_score :: real
  amenities_score :: real
  score_recommendation :: Tier

record Hotel =
  hotel_id :: nat
  rating :: real
  stars :: real
  price_per_night :: real
  utility_score :: "UtilityScore option"

datatype FlightSortOption = FlightByPrice | FlightByDuration | FlightByScore | FlightByStops

datatype HotelSortOption = HotelByScore | HotelByPrice | HotelByRating | HotelByStars

text \<open>\<^verbatim>\<open>x || 0\<close> for an optional number.\<close>

definition or_zero :: "real option \<Rightarrow> real" where
  "or_zero x = (case x of None \<Rightarrow> 0 | Some v \<Rightarrow> v)"

text \<open>
  \<^verbatim>\<open>Array.prototype.sort\<close> with a comparator: the sort is stable, an element goes before
  another when the comparator is negative and keeps its place relative to the elements
  it compares equal to. Each element, from the last to the first, is inserted in front of
  the first element it does not have to follow.
\<close>

fun insert_cmp :: "('a \<Rightarrow> 'a \<Rightarrow> real) \<Rightarrow> 'a \<Rightarrow> 'a list \<Rightarrow> 'a list" where
  "insert_cmp cmp x [] = [x]"
| "insert_cmp cmp x (y # ys) = (if cmp x y \<le> 0 then x # y # ys else y # insert_cmp cmp x ys)"

definition array_sort :: "('a \<Rightarrow> 'a \<Rightarrow> real) \<Rightarrow> 'a list \<Rightarrow> 'a list" where
  "array_sort cmp xs = foldr (insert_cmp cmp) xs []"

text \<open>\<^verbatim>\<open>a.goal_evaluation?.total_utility || 0\<close> and \<^verbatim>\<open>a.utility_score?.total_score || 0\<close>.\<close>

definition flight_utility :: "Flight \<Rightarrow> real" where
  "flight_utility a = or_zero (map_option total_utility (goal_evaluation a))"

definition hotel_utility :: "Hotel \<Rightarrow> real" where
  "hotel_utility a = or_zero (map_option total_score (utility_score a))"

text \<open>The comparators of \<^verbatim>\<open>FlightResultsScreen\<close> and \<^verbatim>\<open>HotelResultsScreen\<close>.\<close>

definition flight_compare :: "FlightSortOption \<Rightarrow> Flight \<Rightarrow> Flight \<Rightarrow> real" where
  "flight_compare sortBy a b =
     (case sortBy of
        FlightByPrice \<Rightarrow> price a - price b
      | FlightByDuration \<Rightarrow> or_zero (duration_minutes a) - or_zero (duration_minutes b)
      | FlightByStops \<Rightarrow> stops a - stops b
      | FlightByScore \<Rightarrow> flight_utility b - flight_utility a)"

definition hotel_compare :: "HotelSortOption \<Rightarrow> Hotel \<Rightarrow> Hotel \<Rightarrow> real" where
  "hotel_compare sortBy a b =
     (case sortBy of
        HotelByPrice \<Rightarrow> price_per_night a - price_per_night b
      | HotelByRating \<Rightarrow> rating b - rating a
      | HotelByStars \<Rightarrow> stars b - stars a
      | HotelByScore \<Rightarrow> hotel_utility b - hotel_utility a)"

definition flight_sortedResults :: "FlightSortOption \<Rightarrow> Flight list \<Rightarrow> Flight list" where
  "flight_sortedResults sortBy flightResults = array_sort (flight_compare sortBy) flightResults"

definition hotel_sortedResults :: "HotelSortOption \<Rightarrow> Hotel list \<Rightarrow> Hotel list" where
  "hotel_sortedResults sortBy hotelResults = array_sort (hotel_compare sortBy) hotelResults"

text \<open>
  The order of the specification, in its words: a candidate goes before another when its
  total utility is higher, or when the utilities are equal and its price is lower.
\<close>

definition spec_goes_before :: "Flight \<Rightarrow> Flight \<Rightarrow> bool" where
  "spec_goes_before a b =
     (flight_utility a > flight_utility b
      \<or> (flight_utility a = flight_utility b \<and> price a < price b))"

section \<open>The scoring engine\<close>

text \<open>
  Modelled from the spec: the utility-scoring engine (\<open>score\<close> and the tier rule) runs on
  the server and is not among the sources; the clients only receive its result as a
  \<^verbatim>\<open>GoalEvaluation\<close>. The definitions below follow sections 3 and 4.2 of the
  specification for flights. Where no budget or no preferred duration is set, the
  specification uses the candidate's normalised rank within the result set, which is
  passed in (\<open>priceRank\<close>, \<open>durationRank\<close>). A candidate without a duration scores 0 for
  that criterion.
\<close>

record GoalProfile =
  budgetMax :: "real option"
  preferredDurationMinutes :: "real option"
  weightPrice :: real
  weightDuration :: real
  weightStops :: real

definition clamp01 :: "real \<Rightarrow> real" where
  "clamp01 x = max 0 (min 1 x)"

text \<open>
  Modelled from the spec: the tier rule of section 4.2, evaluated in its order, first
  match wins.
\<close>

definition assign_tier :: "bool \<Rightarrow> real \<Rightarrow> Tier" where
  "assign_tier budgetConstraintMet totalUtility =
     (if \<not> budgetConstraintMet then poor
      else if totalUtility \<ge> 0.8 then excellent
      else if totalUtility \<ge> 0.6 then good
      else if totalUtility \<ge> 0.4 then fair
      else poor)"

text \<open>
  Modelled from the spec: \<open>score(candidate, goalProfile)\<close> for a flight candidate, section
  4.2 (price, duration and stops scores, the budget constraint, the weighted total and
  the tier).
\<close>

definition score :: "real \<Rightarrow> real \<Rightarrow> Flight \<Rightarrow> GoalProfile \<Rightarrow> GoalEvaluation" where
  "score priceRank durationRank candidate goalProfile =
     (let priceScore =
            (case budgetMax goalProfile of
               Some b \<Rightarrow> clamp01 (1 - price candidate / (b * 1.5))
             | None \<Rightarrow> 1 - priceRank);
          durationScore =
            (case duration_minutes candidate of
               None \<Rightarrow> 0
             | Some d \<Rightarrow>
                 (case preferredDurationMinutes goalProfile of
                    Some pd \<Rightarrow> clamp01 (1 - \<bar>d - pd\<bar> / pd)
                  | None \<Rightarrow> 1 - durationRank));
          stopsScore = 1 / (1 + stops candidate);
          budgetConstraintMet =
            (case budgetMax goalProfile of None \<Rightarrow> True | Some b \<Rightarrow> price candidate \<le> b);
          totalUtility = weightPrice goalProfile * priceScore
                       + weightDuration goalProfile * durationScore
                       + weightStops goalProfile * stopsScore
      in \<lparr>total_utility = totalUtility, budget_constraint_met = budgetConstraintMet,
          price_score = priceScore, duration_score = durationScore, stops_score = stopsScore,
          recommendation = assign_tier budgetConstraintMet totalUtility\<rparr>)"

section \<open>Properties\<close>

subsection \<open>The token-refresh interceptor\<close>

lemma coordinator_inv_initial: "coordinator_inv (initial st)"
  by (simp add: coordinator_inv_def initial_def)

lemma coordinator_inv_step: "coordinator_inv s \<Longrightarrow> coordinator_inv (step ev s)"
  by (cases ev)
     (auto simp: coordinator_inv_def task_storage_done_def catch_refresh_error_def
        set_task_def drop_task_def processQueue_def Let_def
        split: pc.splits option.splits if_splits)

lemma coordinator_inv_run: "coordinator_inv s \<Longrightarrow> coordinator_inv (run es s)"
  unfolding run_def by (induction es arbitrary: s) (simp_all add: coordinator_inv_step)

lemma run_Nil [simp]: "run [] s = s"
  by (simp add: run_def)

lemma run_Cons [simp]: "run (ev # es) s = run es (step ev s)"
  by (simp add: run_def)

lemma run_append [simp]: "run (es @ es') s = run es' (run es s)"
  by (simp add: run_def)

lemma reachable_inv: "coordinator_inv (run es (initial st))"
  by (simp add: coordinator_inv_run coordinator_inv_initial)

lemma multiRemove_apply: "multiRemove ks st k = (if k \<in> set ks then None else st k)"
  unfolding multiRemove_def by (induction ks arbitrary: st) auto

lemma storage_keys_distinct:
  "AUTH_TOKEN \<noteq> REFRESH_TOKEN" "AUTH_TOKEN \<noteq> USER_DATA" "REFRESH_TOKEN \<noteq> USER_DATA"
  by (simp_all add: AUTH_TOKEN_def REFRESH_TOKEN_def USER_DATA_def)



lemma bystander_step:
  "isRefreshing s \<Longrightarrow> bystander ev \<Longrightarrow>
     isRefreshing (step ev s) \<and> tasks (step ev s) = tasks s
     \<and> refreshCalls (step ev s) = refreshCalls s \<and> reissued (step ev s) = reissued s
     \<and> (\<exists>more. rejected (step ev s) = rejected s @ more)"
  by (cases ev) auto

lemma bystander_run:
  "isRefreshing s \<Longrightarrow> \<forall>ev\<in>set m. bystander ev \<Longrightarrow>
     isRefreshing (run m s) \<and> tasks (run m s) = tasks s
     \<and> refreshCalls (run m s) = refreshCalls s \<and> reissued (run m s) = reissued s
     \<and> (\<exists>more. rejected (run m s) = rejected s @ more)"
proof (induction m arbitrary: s)
  case Nil
  then show ?case by simp
next
  case (Cons ev m)
  from Cons.prems have p: "bystander ev" and ps: "\<forall>e\<in>set m. bystander e" by simp_all
  note st = bystander_step [OF Cons.prems(1) p]
  from st have r: "isRefreshing (step ev s)" by blast
  note ih = Cons.IH [OF r ps]
  from st obtain m1 where m1: "rejected (step ev s) = rejected s @ m1" by blast
  from ih obtain m2 where m2: "rejected (run m (step ev s)) = rejected (step ev s) @ m2" by blast
  have "rejected (run m (step ev s)) = rejected s @ (m1 @ m2)" using m1 m2 by simp
  then have "\<exists>more. rejected (run (ev # m) s) = rejected s @ more" by auto
  with st ih show ?case by simp
qed

lemma response_error_storage:
  "\<forall>ev\<in>set m. is_response_error ev \<Longrightarrow> storage (run m s) = storage s"
proof (induction m arbitrary: s)
  case Nil
  then show ?case by simp
next
  case (Cons ev m)
  then show ?case by (cases ev) auto
qed

lemma is_response_error_bystander: "is_response_error ev \<Longrightarrow> bystander ev"
  by (cases ev) auto

lemma no_refresh_step:
  "no_refresh_possible s \<Longrightarrow> \<not> writes_refresh_token ev \<Longrightarrow>
     no_refresh_possible (step ev s) \<and> refreshCalls (step ev s) = refreshCalls s"
  by (cases ev)
     (fastforce simp: no_refresh_possible_def task_storage_done_def catch_refresh_error_def
        set_task_def drop_task_def processQueue_def Let_def setItem_def multiRemove_apply
        list_all_length nth_list_update nth_append
        split: pc.splits option.splits if_splits)+

lemma no_refresh_run:
  "no_refresh_possible s \<Longrightarrow> \<forall>ev\<in>set es. \<not> writes_refresh_token ev \<Longrightarrow>
     refreshCalls (run es s) = refreshCalls s"
proof (induction es arbitrary: s)
  case Nil
  then show ?case by simp
next
  case (Cons ev es)
  then show ?case using no_refresh_step [of s ev] by simp
qed



text \<open>
  What the \<^verbatim>\<open>catch\<close> block does when the refresh call fails with error \<open>e\<close>: every
  request waiting in the queue at that moment is rejected with \<open>e\<close> (the error of the
  refresh call as it is) and the queue is emptied, nothing is reissued,
  and the handler removes the access token, the refresh token and the user data and
  then leaves the coordinator idle, whatever other responses or storage writes (\<open>mid\<close>)
  arrive while it is removing them. Afterwards no refresh call is sent, whatever happens
  (\<open>later\<close>), as long as no refresh token is stored again, which only login and
  register do.
\<close>

lemma refresh_failure_handling:
  assumes s: "s = run es (initial st)"
    and t: "tasks s = [t]" "tpc t = AwaitPost rt"
    and mid: "\<forall>ev\<in>set mid. bystander ev"
    and later: "\<forall>ev\<in>set later. \<not> writes_refresh_token ev"
    and s1: "s1 = step (RefreshRejected 0 e) s"
    and s2: "s2 = step (StorageDone 0) (run mid s1)"
  shows "rejected s1 = rejected s @ map (\<lambda>q. (q, e)) (failedQueue s)
       \<and> failedQueue s1 = [] \<and> reissued s2 = reissued s
       \<and> (\<exists>more. rejected s2 = rejected s1 @ more @ [(treq t, e)])
       \<and> \<not> isRefreshing s2 \<and> tasks s2 = []
       \<and> storage s2 AUTH_TOKEN = None \<and> storage s2 REFRESH_TOKEN = None
       \<and> storage s2 USER_DATA = None
       \<and> refreshCalls (run later s2) = refreshCalls s"
proof -
  have inv: "coordinator_inv s" using s reachable_inv by simp
  with t have busy: "isRefreshing s" by (auto simp: coordinator_inv_def split: if_splits)
  have s1_eq: "s1 = s\<lparr>rejected := rejected s @ map (\<lambda>q. (q, e)) (failedQueue s),
                       failedQueue := [], tasks := [t\<lparr>tpc := AwaitMultiRemove e\<rparr>]\<rparr>"
    using t s1 by (simp add: catch_refresh_error_def processQueue_def set_task_def)
  have busy1: "isRefreshing s1" using busy s1_eq by simp
  note b = bystander_run [OF busy1 mid]
  from b obtain more where more: "rejected (run mid s1) = rejected s1 @ more" by blast
  have tm: "tasks (run mid s1) = [t\<lparr>tpc := AwaitMultiRemove e\<rparr>]" using b s1_eq by simp
  have s2_eq: "s2 = (run mid s1)\<lparr>
        storage := multiRemove [AUTH_TOKEN, REFRESH_TOKEN, USER_DATA] (storage (run mid s1)),
        rejected := rejected (run mid s1) @ [(treq t, e)], isRefreshing := False, tasks := []\<rparr>"
    using s2 tm by (simp add: task_storage_done_def drop_task_def Let_def)
  have nr: "no_refresh_possible s2"
    using s2_eq by (simp add: no_refresh_possible_def multiRemove_apply)
  have rc: "refreshCalls s2 = refreshCalls s" using s2_eq b s1_eq by simp
  have "refreshCalls (run later s2) = refreshCalls s"
    using no_refresh_run [OF nr later] rc by simp
  moreover have "\<exists>more. rejected s2 = rejected s1 @ more @ [(treq t, e)]"
    using s2_eq more by simp
  moreover have "reissued s2 = reissued s" using s2_eq b s1_eq by simp
  ultimately show ?thesis
    using s1_eq s2_eq by (simp add: multiRemove_apply)
qed

text \<open>
  A fresh request whose 401 arrives after the queue has been rejected, while the handler
  is still removing the credentials, is enqueued and is neither rejected nor reissued by
  this handler: it waits in the queue for the next run of \<^verbatim>\<open>processQueue\<close>.
\<close>

lemma late_failure_waits_for_next_cycle:
  assumes "isRefreshing s" and "tasks s = [t]" and "tpc t = AwaitMultiRemove e"
    and "status err = Some 401" and "\<not> retry req"
  shows "failedQueue (step (StorageDone 0) (step (ResponseError err req) s)) = failedQueue s @ [req]
       \<and> rejected (step (StorageDone 0) (step (ResponseError err req) s)) = rejected s @ [(treq t, e)]
       \<and> reissued (step (StorageDone 0) (step (ResponseError err req) s)) = reissued s
       \<and> \<not> isRefreshing (step (StorageDone 0) (step (ResponseError err req) s))"
  using assms by (simp add: task_storage_done_def drop_task_def Let_def)

text \<open>
  C2. On a failed refresh every request waiting in the queue is to be rejected and the
  coordinator is to be idle with the credentials cleared. The handler rejects the queue
  before it awaits \<^verbatim>\<open>multiRemove\<close> and resets \<^verbatim>\<open>isRefreshing\<close> only in \<^verbatim>\<open>finally\<close>,
  so a request that fails with 401 in between is enqueued and left behind. Here request 1
  starts the refresh, request 2 is queued while the call is in flight, the call is
  rejected, and the 401 of request 3 arrives while the credentials are being removed.
  Afterwards the coordinator is idle and the credentials are gone, requests 2 and 1 have
  been rejected with the error of the refresh call, and request 3 is still in the queue:
  it has been neither rejected nor reissued.
\<close>

theorem refresh_failure_strands_late_waiter:
  "(let s = run [ResponseError (AxiosError (Some 401)) \<lparr>rid = 1, retry = False, authorization = Some ''Bearer a1''\<rparr>,
                 StorageDone 0,
                 ResponseError (AxiosError (Some 401)) \<lparr>rid = 2, retry = False, authorization = Some ''Bearer a1''\<rparr>]
                (initial [AUTH_TOKEN \<mapsto> ''a1'', REFRESH_TOKEN \<mapsto> ''r1'', USER_DATA \<mapsto> ''u'']);
        s1 = step (RefreshRejected 0 (AxiosError (Some 401))) s;
        s2 = step (StorageDone 0)
               (run [ResponseError (AxiosError (Some 401)) \<lparr>rid = 3, retry = False, authorization = Some ''Bearer a1''\<rparr>] s1)
    in \<not> isRefreshing s2 \<and> tasks s2 = []
       \<and> storage s2 AUTH_TOKEN = None \<and> storage s2 REFRESH_TOKEN = None
       \<and> storage s2 USER_DATA = None
       \<and> rejected s2 =
           [(\<lparr>rid = 2, retry = False, authorization = Some ''Bearer a1''\<rparr>, AxiosError (Some 401)),
            (\<lparr>rid = 1, retry = True, authorization = Some ''Bearer a1''\<rparr>, AxiosError (Some 401))]
       \<and> reissued s2 = []
       \<and> failedQueue s2 = [\<lparr>rid = 3, retry = False, authorization = Some ''Bearer a1''\<rparr>])"
  by (simp add: Let_def initial_def task_storage_done_def catch_refresh_error_def
        processQueue_def set_task_def drop_task_def multiRemove_apply
        storage_keys_distinct storage_keys_distinct [symmetric])

text \<open>
  C3. When a refresh has succeeded with the pair \<open>(a, r)\<close>, the handler writes the new
  access token first and the new refresh token in a second, separate storage write.
  Responses of other requests may be handled before, between and after the two writes
  (\<open>m1\<close>, \<open>m2\<close>, \<open>m3\<close>). Once both writes have completed the store holds the new
  pair; between the two writes a reader of the store finds the new access token together
  with the refresh token that was stored before.
\<close>

theorem credential_pair_replaced_in_two_writes:
  assumes s: "s = run es (initial st)"
    and t: "tasks s = [t]" "tpc t = AwaitPost rt"
    and m: "\<forall>ev\<in>set m1. is_response_error ev" "\<forall>ev\<in>set m2. is_response_error ev"
           "\<forall>ev\<in>set m3. is_response_error ev"
    and s1: "s1 = run ([RefreshResolved 0 a r] @ m1 @ [StorageDone 0]) s"
    and s2: "s2 = run (m2 @ [StorageDone 0] @ m3) s1"
  shows "multiGet [AUTH_TOKEN, REFRESH_TOKEN] (storage s1)
           = [(AUTH_TOKEN, Some a), (REFRESH_TOKEN, storage s REFRESH_TOKEN)]
       \<and> multiGet [AUTH_TOKEN, REFRESH_TOKEN] (storage s2)
           = [(AUTH_TOKEN, Some a), (REFRESH_TOKEN, Some r)]
       \<and> storage s1 = (storage s)(AUTH_TOKEN \<mapsto> a)
       \<and> storage s2 = (storage s)(AUTH_TOKEN \<mapsto> a, REFRESH_TOKEN \<mapsto> r)"
proof -
  have inv: "coordinator_inv s" using s reachable_inv by simp
  with t have busy: "isRefreshing s" by (auto simp: coordinator_inv_def split: if_splits)
  define u where "u = step (RefreshResolved 0 a r) s"
  have u_eq: "u = s\<lparr>tasks := [t\<lparr>tpc := AwaitSetAuth a r\<rparr>]\<rparr>"
    using t by (simp add: u_def set_task_def)
  have busy_u: "isRefreshing u" using busy u_eq by simp
  have b1: "\<forall>ev\<in>set m1. bystander ev" using m(1) is_response_error_bystander by blast
  have b2: "\<forall>ev\<in>set m2. bystander ev" using m(2) is_response_error_bystander by blast
  note r1 = bystander_run [OF busy_u b1]
  have st1: "storage (run m1 u) = storage s" using response_error_storage [OF m(1)] u_eq by simp
  have s1_eq: "s1 = step (StorageDone 0) (run m1 u)" using s1 by (simp add: u_def)
  have tk1: "tasks (run m1 u) = [t\<lparr>tpc := AwaitSetAuth a r\<rparr>]" using r1 u_eq by simp
  have A: "storage s1 = (storage s)(AUTH_TOKEN \<mapsto> a)"
    using s1_eq tk1 st1 by (simp add: task_storage_done_def set_task_def setItem_def)
  have tk1': "tasks s1 = [t\<lparr>tpc := AwaitSetRefresh a r\<rparr>]"
    using s1_eq tk1 by (simp add: task_storage_done_def set_task_def)
  have busy1: "isRefreshing s1"
    using s1_eq tk1 r1 by (simp add: task_storage_done_def set_task_def)
  note r2 = bystander_run [OF busy1 b2]
  have st2: "storage (run m2 s1) = storage s1" using response_error_storage [OF m(2)] by simp
  have tk2: "tasks (run m2 s1) = [t\<lparr>tpc := AwaitSetRefresh a r\<rparr>]" using r2 tk1' by simp
  have "storage (step (StorageDone 0) (run m2 s1)) = (storage s1)(REFRESH_TOKEN \<mapsto> r)"
    using tk2 st2
    by (simp add: task_storage_done_def drop_task_def processQueue_def setItem_def Let_def)
  then have B: "storage s2 = (storage s1)(REFRESH_TOKEN \<mapsto> r)"
    using s2 response_error_storage [OF m(3)] by simp
  show ?thesis
    using A B by (simp add: multiGet_def storage_keys_distinct storage_keys_distinct [symmetric])
qed

theorem credential_pair_replaced_in_two_writes_witness:
  "(let s = run [ResponseError (AxiosError (Some 401)) \<lparr>rid = 1, retry = False, authorization = Some ''Bearer a1''\<rparr>,
                 StorageDone 0]
                (initial [AUTH_TOKEN \<mapsto> ''a1'', REFRESH_TOKEN \<mapsto> ''r1'']);
        s1 = run ([RefreshResolved 0 ''a2'' ''r2'']
                  @ [ResponseError (AxiosError (Some 401)) \<lparr>rid = 2, retry = False, authorization = Some ''Bearer a1''\<rparr>]
                  @ [StorageDone 0]) s;
        s2 = run ([] @ [StorageDone 0] @ []) s1
    in multiGet [AUTH_TOKEN, REFRESH_TOKEN] (storage s1)
         = [(AUTH_TOKEN, Some ''a2''), (REFRESH_TOKEN, Some ''r1'')]
     \<and> multiGet [AUTH_TOKEN, REFRESH_TOKEN] (storage s2)
         = [(AUTH_TOKEN, Some ''a2''), (REFRESH_TOKEN, Some ''r2'')])"
proof -
  define s where "s = run [ResponseError (AxiosError (Some 401)) \<lparr>rid = 1, retry = False, authorization = Some ''Bearer a1''\<rparr>,
                 StorageDone 0]
                (initial [AUTH_TOKEN \<mapsto> ''a1'', REFRESH_TOKEN \<mapsto> ''r1''])"
  define s1 where "s1 = run ([RefreshResolved 0 ''a2'' ''r2'']
                  @ [ResponseError (AxiosError (Some 401)) \<lparr>rid = 2, retry = False, authorization = Some ''Bearer a1''\<rparr>]
                  @ [StorageDone 0]) s"
  define s2 where "s2 = run ([] @ [StorageDone 0] @ []) s1"
  have s_val: "s = \<lparr>storage = [AUTH_TOKEN \<mapsto> ''a1'', REFRESH_TOKEN \<mapsto> ''r1''],
      isRefreshing = True, failedQueue = [],
      tasks = [\<lparr>treq = \<lparr>rid = 1, retry = True, authorization = Some ''Bearer a1''\<rparr>, tpc = AwaitPost ''r1''\<rparr>],
      refreshCalls = [''r1''], reissued = [], rejected = []\<rparr>"
    unfolding s_def
    by (simp add: initial_def task_storage_done_def set_task_def storage_keys_distinct
          storage_keys_distinct [symmetric])
  have t: "tasks s = [\<lparr>treq = \<lparr>rid = 1, retry = True, authorization = Some ''Bearer a1''\<rparr>, tpc = AwaitPost ''r1''\<rparr>]"
    "tpc \<lparr>treq = \<lparr>rid = 1, retry = True, authorization = Some ''Bearer a1''\<rparr>, tpc = AwaitPost ''r1''\<rparr> = AwaitPost ''r1''"
    by (simp_all add: s_val)
  have m: "\<forall>ev\<in>set [ResponseError (AxiosError (Some 401)) \<lparr>rid = 2, retry = False, authorization = Some ''Bearer a1''\<rparr>]. is_response_error ev"
    "\<forall>ev\<in>set []. is_response_error ev" "\<forall>ev\<in>set []. is_response_error ev"
    by simp_all
  note main = credential_pair_replaced_in_two_writes [OF s_def t m s1_def s2_def]
  have old_r: "storage s REFRESH_TOKEN = Some ''r1''"
    by (simp add: s_val)
  from main have "multiGet [AUTH_TOKEN, REFRESH_TOKEN] (storage s1)
         = [(AUTH_TOKEN, Some ''a2''), (REFRESH_TOKEN, storage s REFRESH_TOKEN)]
     \<and> multiGet [AUTH_TOKEN, REFRESH_TOKEN] (storage s2)
         = [(AUTH_TOKEN, Some ''a2''), (REFRESH_TOKEN, Some ''r2'')]"
    by blast
  then have "multiGet [AUTH_TOKEN, REFRESH_TOKEN] (storage s1)
         = [(AUTH_TOKEN, Some ''a2''), (REFRESH_TOKEN, Some ''r1'')]
     \<and> multiGet [AUTH_TOKEN, REFRESH_TOKEN] (storage s2)
         = [(AUTH_TOKEN, Some ''a2''), (REFRESH_TOKEN, Some ''r2'')]"
    unfolding old_r .
  then show ?thesis
    unfolding Let_def s2_def s1_def s_def .
qed

text \<open>
  The replacement is not atomic: in the state reached after the first write of a
  successful refresh, reading both keys returns the new access token \<open>a2\<close> and the old
  refresh token \<open>r1\<close>, and the request interceptor attaches \<open>a2\<close> to a request sent
  then.
\<close>

theorem credential_pair_torn_between_writes:
  "multiGet [AUTH_TOKEN, REFRESH_TOKEN]
     (storage (run [ResponseError (AxiosError (Some 401)) \<lparr>rid = 1, retry = False, authorization = Some ''Bearer a1''\<rparr>,
                    StorageDone 0, RefreshResolved 0 ''a2'' ''r2'', StorageDone 0]
                 (initial [AUTH_TOKEN \<mapsto> ''a1'', REFRESH_TOKEN \<mapsto> ''r1''])))
   = [(AUTH_TOKEN, Some ''a2''), (REFRESH_TOKEN, Some ''r1'')]
   \<and> authorization
       (request_interceptor
          (storage (run [ResponseError (AxiosError (Some 401)) \<lparr>rid = 1, retry = False, authorization = Some ''Bearer a1''\<rparr>,
                         StorageDone 0, RefreshResolved 0 ''a2'' ''r2'', StorageDone 0]
                      (initial [AUTH_TOKEN \<mapsto> ''a1'', REFRESH_TOKEN \<mapsto> ''r1''])))
          \<lparr>rid = 2, retry = False, authorization = None\<rparr>)
     = Some ''Bearer a2''"
  by (simp add: multiGet_def initial_def task_storage_done_def set_task_def setItem_def
        request_interceptor_def bearer_def storage_keys_distinct storage_keys_distinct [symmetric])

subsection \<open>The chat assistant\<close>

lemma trim_empty_iff: "trim t = [] \<longleftrightarrow> (\<forall>c\<in>set t. whitespace c)"
proof
  assume "trim t = []"
  then have "dropWhile whitespace (rev (dropWhile whitespace t)) = []"
    by (simp add: trim_def)
  then have "\<forall>c\<in>set (rev (dropWhile whitespace t)). whitespace c"
    by (simp add: dropWhile_eq_Nil_conv)
  then have "dropWhile whitespace t = []"
    by (metis dropWhile_eq_Nil_conv dropWhile_idem set_rev)
  then show "\<forall>c\<in>set t. whitespace c"
    by (simp add: dropWhile_eq_Nil_conv)
next
  assume "\<forall>c\<in>set t. whitespace c"
  then show "trim t = []"
    by (auto simp: trim_def dest: set_dropWhileD)
qed

lemma js_not_Nil [simp]: "js (c # cs) \<noteq> []"
  by (simp add: js_def)

lemma trim_example: "trim (js ''to Paris'') = js ''to Paris''"
  by (simp add: trim_def whitespace_def js_def)

text \<open>
  C6. After a successful answer to a message, the extracted parameters are exactly the
  set the backend returned (the empty set when it returned none) and the completeness
  flag is the one it returned (false when it returned none): the component replaces its
  set as a whole and merges nothing itself. The set held before was sent to the backend
  with the request.
\<close>

theorem sendMessage_replaces_extracted:
  assumes "trim text \<noteq> []" and "success data"
    and "sendMessage text now (Responded data) now' s = (r, s', calls)"
  shows "extractedParams s' = (case extracted_params data of None \<Rightarrow> Map.empty | Some ps \<Rightarrow> ps)
       \<and> paramsComplete s' = (case params_complete data of None \<Rightarrow> False | Some b \<Rightarrow> b)
       \<and> map body_extracted_params calls = [extractedParams s]"
  using assms by (auto simp: sendMessage_def sendMessage_begin_def sendMessage_end_def)

theorem sendMessage_replaces_extracted_witness:
  "extractedParams (fst (snd (sendMessage (js ''to Paris'') 1 (Responded 
        \<lparr>success = True, reply = js ''Where from?'',
                    extracted_params = Some [''destination'' \<mapsto> Str ''Paris''],
                    params_complete = None, resp_error = FieldAbsent,
                    planning_result = (None :: unit option)\<rparr>) 2 
        \<lparr>messages = [], input = (js ''to Paris''), loading = False, planning = False,
          extractedParams = [''origin'' \<mapsto> Str ''NYC''], paramsComplete = False\<rparr> :: (dialogue_error, unit) settled \<times> ChatState \<times> ChatRequest list)))
     = [''destination'' \<mapsto> Str ''Paris'']
   \<and> \<not> paramsComplete (fst (snd (sendMessage (js ''to Paris'') 1 (Responded 
        \<lparr>success = True, reply = js ''Where from?'',
                    extracted_params = Some [''destination'' \<mapsto> Str ''Paris''],
                    params_complete = None, resp_error = FieldAbsent,
                    planning_result = (None :: unit option)\<rparr>) 2 
        \<lparr>messages = [], input = (js ''to Paris''), loading = False, planning = False,
          extractedParams = [''origin'' \<mapsto> Str ''NYC''], paramsComplete = False\<rparr> :: (dialogue_error, unit) settled \<times> ChatState \<times> ChatRequest list)))
   \<and> map body_extracted_params (snd (snd (sendMessage (js ''to Paris'') 1 (Responded 
        \<lparr>success = True, reply = js ''Where from?'',
                    extracted_params = Some [''destination'' \<mapsto> Str ''Paris''],
                    params_complete = None, resp_error = FieldAbsent,
                    planning_result = (None :: unit option)\<rparr>) 2 
        \<lparr>messages = [], input = (js ''to Paris''), loading = False, planning = False,
          extractedParams = [''origin'' \<mapsto> Str ''NYC''], paramsComplete = False\<rparr> :: (dialogue_error, unit) settled \<times> ChatState \<times> ChatRequest list)))
     = [[''origin'' \<mapsto> Str ''NYC'']]"
proof -
  define out where "out = (sendMessage (js ''to Paris'') 1 (Responded 
        \<lparr>success = True, reply = js ''Where from?'',
                    extracted_params = Some [''destination'' \<mapsto> Str ''Paris''],
                    params_complete = None, resp_error = FieldAbsent,
                    planning_result = (None :: unit option)\<rparr>) 2 
        \<lparr>messages = [], input = (js ''to Paris''), loading = False, planning = False,
          extractedParams = [''origin'' \<mapsto> Str ''NYC''], paramsComplete = False\<rparr> :: (dialogue_error, unit) settled \<times> ChatState \<times> ChatRequest list)"
  have h1: "trim (js ''to Paris'') \<noteq> []" by (simp add: trim_example)
  have h2: "success 
        \<lparr>success = True, reply = js ''Where from?'',
                    extracted_params = Some [''destination'' \<mapsto> Str ''Paris''],
                    params_complete = None, resp_error = FieldAbsent,
                    planning_result = (None :: unit option)\<rparr>" by simp
  have h3: "sendMessage (js ''to Paris'') 1 (Responded 
        \<lparr>success = True, reply = js ''Where from?'',
                    extracted_params = Some [''destination'' \<mapsto> Str ''Paris''],
                    params_complete = None, resp_error = FieldAbsent,
                    planning_result = (None :: unit option)\<rparr>) 2 
        \<lparr>messages = [], input = (js ''to Paris''), loading = False, planning = False,
          extractedParams = [''origin'' \<mapsto> Str ''NYC''], paramsComplete = False\<rparr> = (fst out, fst (snd out), snd (snd out))"
    by (simp add: out_def)
  from sendMessage_replaces_extracted [OF h1 h2 h3]
  have "extractedParams (fst (snd out)) = [''destination'' \<mapsto> Str ''Paris'']
      \<and> \<not> paramsComplete (fst (snd out))
      \<and> map body_extracted_params (snd (snd out)) = [[''origin'' \<mapsto> Str ''NYC'']]"
    by simp
  then show ?thesis unfolding out_def .
qed

text \<open>
  A field that the answer does not return is lost, where the merge of the specification
  would keep it: \<open>origin\<close> was extracted before, the answer returns only
  \<open>destination\<close>.
\<close>

theorem sendMessage_drops_unreturned_field:
  "extractedParams (fst (snd (sendMessage (js ''to Paris'') 1 (Responded 
        \<lparr>success = True, reply = js ''Where from?'',
                    extracted_params = Some [''destination'' \<mapsto> Str ''Paris''],
                    params_complete = None, resp_error = FieldAbsent,
                    planning_result = (None :: unit option)\<rparr>) 2 
        \<lparr>messages = [], input = (js ''to Paris''), loading = False, planning = False,
          extractedParams = [''origin'' \<mapsto> Str ''NYC''], paramsComplete = False\<rparr> :: (dialogue_error, unit) settled \<times> ChatState \<times> ChatRequest list))) ''origin'' = None
   \<and> spec_merge [''origin'' \<mapsto> Str ''NYC''] [''destination'' \<mapsto> Str ''Paris''] ''origin''
       = Some (Str ''NYC'')"
  by (simp add: sendMessage_def sendMessage_begin_def sendMessage_end_def trim_example spec_merge_def)


text \<open>
  C7. When the backend cannot be reached, the extracted parameters, the completeness flag
  and the planning flag are as before the call and the call itself raises no error; the
  list of messages has grown by the user's message and by the assistant's apology, the
  input is cleared and \<open>loading\<close> is false again.
\<close>

theorem sendMessage_unreachable_keeps_extracted:
  assumes "trim text \<noteq> []"
    and "sendMessage text now Unreachable now' s = (r, s', calls)"
  shows "r = Fulfilled ()
       \<and> extractedParams s' = extractedParams s \<and> paramsComplete s' = paramsComplete s
       \<and> planning s' = planning s \<and> input s' = [] \<and> \<not> loading s'
       \<and> messages s' = messages s @
            [\<lparr>role = RoleUser, content = trim text, timestamp = now\<rparr>,
             \<lparr>role = RoleAssistant,
              content = js ''Sorry, I could not reach the server. Please try again.'',
              timestamp = now'\<rparr>]"
  using assms by (auto simp: sendMessage_def sendMessage_begin_def sendMessage_end_def)

theorem sendMessage_unreachable_keeps_extracted_witness:
  "fst (sendMessage (js ''to Paris'') 1 (Unreachable :: unit fetched) 2 
        \<lparr>messages = [], input = (js ''to Paris''), loading = False, planning = False,
          extractedParams = [''origin'' \<mapsto> Str ''NYC''], paramsComplete = False\<rparr> :: (dialogue_error, unit) settled \<times> ChatState \<times> ChatRequest list) = Fulfilled ()
   \<and> extractedParams (fst (snd (sendMessage (js ''to Paris'') 1 (Unreachable :: unit fetched) 2 
        \<lparr>messages = [], input = (js ''to Paris''), loading = False, planning = False,
          extractedParams = [''origin'' \<mapsto> Str ''NYC''], paramsComplete = False\<rparr> :: (dialogue_error, unit) settled \<times> ChatState \<times> ChatRequest list)))
       = [''origin'' \<mapsto> Str ''NYC'']
   \<and> messages (fst (snd (sendMessage (js ''to Paris'') 1 (Unreachable :: unit fetched) 2 
        \<lparr>messages = [], input = (js ''to Paris''), loading = False, planning = False,
          extractedParams = [''origin'' \<mapsto> Str ''NYC''], paramsComplete = False\<rparr> :: (dialogue_error, unit) settled \<times> ChatState \<times> ChatRequest list)))
       = [\<lparr>role = RoleUser, content = (js ''to Paris''), timestamp = 1\<rparr>,
          \<lparr>role = RoleAssistant,
           content = js ''Sorry, I could not reach the server. Please try again.'',
           timestamp = 2\<rparr>]"
proof -
  define out where "out = (sendMessage (js ''to Paris'') 1 (Unreachable :: unit fetched) 2 
        \<lparr>messages = [], input = (js ''to Paris''), loading = False, planning = False,
          extractedParams = [''origin'' \<mapsto> Str ''NYC''], paramsComplete = False\<rparr> :: (dialogue_error, unit) settled \<times> ChatState \<times> ChatRequest list)"
  have h1: "trim (js ''to Paris'') \<noteq> []" by (simp add: trim_example)
  have h2: "sendMessage (js ''to Paris'') 1 (Unreachable :: unit fetched) 2 
        \<lparr>messages = [], input = (js ''to Paris''), loading = False, planning = False,
          extractedParams = [''origin'' \<mapsto> Str ''NYC''], paramsComplete = False\<rparr> = (fst out, fst (snd out), snd (snd out))"
    by (simp add: out_def)
  from sendMessage_unreachable_keeps_extracted [OF h1 h2]
  have "fst out = Fulfilled ()
      \<and> extractedParams (fst (snd out)) = [''origin'' \<mapsto> Str ''NYC'']
      \<and> messages (fst (snd out))
       = [\<lparr>role = RoleUser, content = (js ''to Paris''), timestamp = 1\<rparr>,
          \<lparr>role = RoleAssistant,
           content = js ''Sorry, I could not reach the server. Please try again.'',
           timestamp = 2\<rparr>]"
    by (simp add: trim_example)
  then show ?thesis unfolding out_def .
qed

text \<open>The turns are not as before the failed call.\<close>

theorem sendMessage_unreachable_changes_turns:
  "messages (fst (snd (sendMessage (js ''to Paris'') 1 (Unreachable :: unit fetched) 2 
        \<lparr>messages = [], input = (js ''to Paris''), loading = False, planning = False,
          extractedParams = [''origin'' \<mapsto> Str ''NYC''], paramsComplete = False\<rparr> :: (dialogue_error, unit) settled \<times> ChatState \<times> ChatRequest list)))
     \<noteq> messages 
        \<lparr>messages = [], input = (js ''to Paris''), loading = False, planning = False,
          extractedParams = [''origin'' \<mapsto> Str ''NYC''], paramsComplete = False\<rparr>"
  by (simp add: sendMessage_def sendMessage_begin_def sendMessage_end_def trim_example)


text \<open>
  C8. A text that is empty or consists only of white space (every code unit of it is
  one that \<^verbatim>\<open>trim\<close> removes) is ignored: the call returns at once without raising an
  error, sends nothing to the backend and leaves the state as it is.
\<close>

theorem sendMessage_blank_is_ignored:
  assumes "\<forall>c\<in>set text. whitespace c"
  shows "sendMessage text now res now' s = (Fulfilled (), s, [])"
  using assms by (simp add: sendMessage_def sendMessage_begin_def trim_empty_iff)

theorem sendMessage_blank_is_ignored_witness:
  "(sendMessage [0x20, 0xA0, 0x09, 0x3000] 1 (Unreachable :: unit fetched) 2 
        \<lparr>messages = [], input = (js ''to Paris''), loading = False, planning = False,
          extractedParams = [''origin'' \<mapsto> Str ''NYC''], paramsComplete = False\<rparr> :: (dialogue_error, unit) settled \<times> ChatState \<times> ChatRequest list)
     = (Fulfilled (), 
        \<lparr>messages = [], input = (js ''to Paris''), loading = False, planning = False,
          extractedParams = [''origin'' \<mapsto> Str ''NYC''], paramsComplete = False\<rparr>, [])"
proof -
  have h: "\<forall>c\<in>set [0x20, 0xA0, 0x09, 0x3000]. whitespace c"
    by (simp add: whitespace_def)
  from sendMessage_blank_is_ignored [OF h] show ?thesis .
qed

text \<open>The call is not rejected with \<open>EmptyInput\<close>: its promise is fulfilled.\<close>

theorem sendMessage_blank_raises_no_error:
  "fst (sendMessage [0x20, 0xA0, 0x09, 0x3000] 1 (Unreachable :: unit fetched) 2 
        \<lparr>messages = [], input = (js ''to Paris''), loading = False, planning = False,
          extractedParams = [''origin'' \<mapsto> Str ''NYC''], paramsComplete = False\<rparr> :: (dialogue_error, unit) settled \<times> ChatState \<times> ChatRequest list)
     \<noteq> Rejected EmptyInput"
  by (simp add: sendMessage_def sendMessage_begin_def trim_def whitespace_def)


text \<open>
  C9. While the confirm button is rendered, a click on it runs \<^verbatim>\<open>handleConfirmPlan\<close>,
  which sets \<open>planning\<close> and sends the planning request. While that request is in flight
  the button is not rendered, so a second click reaches no handler: nothing is sent and
  no error is raised. \<^verbatim>\<open>handleConfirmPlan\<close> itself checks no state and never fails: called
  again it sends the planning request again. When the first call has finished the button
  is rendered again.
\<close>

theorem confirm_guarded_by_button_only:
  assumes "confirm_button_rendered s"
  shows "click_confirm now s = Some (handleConfirmPlan_begin now s)
       \<and> body_confirmed (snd (handleConfirmPlan_begin now s))
       \<and> planning (fst (handleConfirmPlan_begin now s))
       \<and> click_confirm now' (fst (handleConfirmPlan_begin now s)) = None
       \<and> body_confirmed (snd (handleConfirmPlan_begin now' (fst (handleConfirmPlan_begin now s))))
       \<and> confirm_button_rendered (fst (handleConfirmPlan_end res now' (fst (handleConfirmPlan_begin now s))))
       \<and> fst (handleConfirmPlan now res now' s) = Fulfilled ()"
  using assms
  by (auto simp: click_confirm_def confirm_button_rendered_def handleConfirmPlan_begin_def
        handleConfirmPlan_end_def handleConfirmPlan_def split: fetched.splits option.splits)


theorem confirm_guarded_by_button_only_witness:
  "click_confirm 1 
        \<lparr>messages = [], input = [], loading = False, planning = False,
          extractedParams = [''origin'' \<mapsto> Str ''NYC''], paramsComplete = True\<rparr> = Some (handleConfirmPlan_begin 1 
        \<lparr>messages = [], input = [], loading = False, planning = False,
          extractedParams = [''origin'' \<mapsto> Str ''NYC''], paramsComplete = True\<rparr>)
   \<and> click_confirm 2 (fst (handleConfirmPlan_begin 1 
        \<lparr>messages = [], input = [], loading = False, planning = False,
          extractedParams = [''origin'' \<mapsto> Str ''NYC''], paramsComplete = True\<rparr>)) = None
   \<and> confirm_button_rendered
       (fst (handleConfirmPlan_end (Unreachable :: unit fetched) 2 (fst (handleConfirmPlan_begin 1 
        \<lparr>messages = [], input = [], loading = False, planning = False,
          extractedParams = [''origin'' \<mapsto> Str ''NYC''], paramsComplete = True\<rparr>))))"
proof -
  have h: "confirm_button_rendered 
        \<lparr>messages = [], input = [], loading = False, planning = False,
          extractedParams = [''origin'' \<mapsto> Str ''NYC''], paramsComplete = True\<rparr>"
    by (simp add: confirm_button_rendered_def)
  from confirm_guarded_by_button_only [OF h, of 1 2 "Unreachable :: unit fetched"]
  show ?thesis by blast
qed

text \<open>
  Two calls of \<^verbatim>\<open>handleConfirmPlan\<close> in a row, the second when the first has set
  \<open>planning\<close>: both send a planning request, and the second is not rejected with
  \<open>InvalidTransition\<close>.
\<close>

theorem confirm_twice_sends_twice:
  "body_confirmed (snd (handleConfirmPlan_begin 1 
        \<lparr>messages = [], input = [], loading = False, planning = False,
          extractedParams = [''origin'' \<mapsto> Str ''NYC''], paramsComplete = True\<rparr>))
   \<and> body_confirmed (snd (handleConfirmPlan_begin 2 (fst (handleConfirmPlan_begin 1 
        \<lparr>messages = [], input = [], loading = False, planning = False,
          extractedParams = [''origin'' \<mapsto> Str ''NYC''], paramsComplete = True\<rparr>))))
   \<and> fst (handleConfirmPlan 2 (Unreachable :: unit fetched) 3 (fst (handleConfirmPlan_begin 1 
        \<lparr>messages = [], input = [], loading = False, planning = False,
          extractedParams = [''origin'' \<mapsto> Str ''NYC''], paramsComplete = True\<rparr>))
          :: (dialogue_error, unit) settled \<times> ChatState \<times> ChatRequest list \<times> unit option)
       \<noteq> Rejected InvalidTransition"
  by (simp add: handleConfirmPlan_begin_def handleConfirmPlan_def handleConfirmPlan_end_def)


subsection \<open>Ranking of search results\<close>

lemma insert_cmp_insort_key:
  "insert_cmp (\<lambda>a b. k a - k b) x ys = insort_key k x ys"
  by (induction ys) simp_all

lemma array_sort_sort_key:
  "array_sort (\<lambda>a b. k a - k b) xs = sort_key k xs"
  by (induction xs) (simp_all add: array_sort_def insert_cmp_insort_key)

lemma array_sort_descending:
  "array_sort (\<lambda>a b. u b - u a) xs = sort_key (\<lambda>a. - u a) xs"
  using array_sort_sort_key [of "\<lambda>a. - u a" xs] by simp

lemma descending_sort_stable:
  "sorted_wrt (\<lambda>a b. u a \<ge> u b) (array_sort (\<lambda>a b. u b - u a) xs)
   \<and> mset (array_sort (\<lambda>a b. u b - u a) xs) = mset xs
   \<and> filter (\<lambda>f. u f = v) (array_sort (\<lambda>a b. u b - u a) xs) = filter (\<lambda>f. u f = v) xs"
proof -
  have "sorted (map (\<lambda>a. - u a) (sort_key (\<lambda>a. - u a) xs))"
    by (rule sorted_sort_key)
  then have a: "sorted_wrt (\<lambda>a b. u a \<ge> u b) (sort_key (\<lambda>a. - u a) xs)"
    by (simp add: sorted_map)
  have "filter (\<lambda>f. - u f = - v) (sort_key (\<lambda>a. - u a) xs) = filter (\<lambda>f. - u f = - v) xs"
    by (rule sort_key_stable)
  then have b: "filter (\<lambda>f. u f = v) (sort_key (\<lambda>a. - u a) xs) = filter (\<lambda>f. u f = v) xs"
    by simp
  show ?thesis
    using a b by (simp add: array_sort_descending)
qed

text \<open>
  C4. With the sort option \<open>AI Score\<close> (the default), the flight and hotel result screens
  show the results in descending order of total utility (a result without a score counts
  as 0); the displayed list is a rearrangement of the results, and results of equal
  utility keep their original relative order. Price plays no part in this order.
\<close>

theorem results_ranked_by_score_stably:
  "sorted_wrt (\<lambda>a b. flight_utility a \<ge> flight_utility b) (flight_sortedResults FlightByScore fs)
   \<and> mset (flight_sortedResults FlightByScore fs) = mset fs
   \<and> filter (\<lambda>f. flight_utility f = v) (flight_sortedResults FlightByScore fs)
       = filter (\<lambda>f. flight_utility f = v) fs
   \<and> sorted_wrt (\<lambda>a b. hotel_utility a \<ge> hotel_utility b) (hotel_sortedResults HotelByScore hs)
   \<and> mset (hotel_sortedResults HotelByScore hs) = mset hs
   \<and> filter (\<lambda>h. hotel_utility h = w) (hotel_sortedResults HotelByScore hs)
       = filter (\<lambda>h. hotel_utility h = w) hs"
proof -
  have f: "flight_sortedResults FlightByScore fs
             = array_sort (\<lambda>a b. flight_utility b - flight_utility a) fs"
    by (simp add: flight_sortedResults_def flight_compare_def [abs_def])
  have h: "hotel_sortedResults HotelByScore hs
             = array_sort (\<lambda>a b. hotel_utility b - hotel_utility a) hs"
    by (simp add: hotel_sortedResults_def hotel_compare_def [abs_def])
  show ?thesis
    unfolding f h
    using descending_sort_stable [of flight_utility fs v] descending_sort_stable [of hotel_utility hs w]
    by simp
qed

theorem results_ranked_by_score_stably_witness:
  "filter (\<lambda>f. flight_utility f = 0.7)
     (flight_sortedResults FlightByScore [
        \<lparr>flight_id = 3, price = 400, duration_minutes = None, stops = 0,
          goal_evaluation = None\<rparr>, 
        \<lparr>flight_id = 1, price = 500, duration_minutes = None, stops = 0,
          goal_evaluation = Some \<lparr>total_utility = 0.7, budget_constraint_met = True, price_score = 0.4,
               duration_score = 1, stops_score = 1, recommendation = good\<rparr>\<rparr>, 
        \<lparr>flight_id = 4, price = 450, duration_minutes = None, stops = 0,
          goal_evaluation = Some \<lparr>total_utility = 0.9, budget_constraint_met = True, price_score = 0.4,
               duration_score = 1, stops_score = 1, recommendation = good\<rparr>\<rparr>, 
        \<lparr>flight_id = 2, price = 300, duration_minutes = None, stops = 0,
          goal_evaluation = Some \<lparr>total_utility = 0.7, budget_constraint_met = True, price_score = 0.4,
               duration_score = 1, stops_score = 1, recommendation = good\<rparr>\<rparr>])
     = [
        \<lparr>flight_id = 1, price = 500, duration_minutes = None, stops = 0,
          goal_evaluation = Some \<lparr>total_utility = 0.7, budget_constraint_met = True, price_score = 0.4,
               duration_score = 1, stops_score = 1, recommendation = good\<rparr>\<rparr>, 
        \<lparr>flight_id = 2, price = 300, duration_minutes = None, stops = 0,
          goal_evaluation = Some \<lparr>total_utility = 0.7, budget_constraint_met = True, price_score = 0.4,
               duration_score = 1, stops_score = 1, recommendation = good\<rparr>\<rparr>]
   \<and> filter (\<lambda>h. hotel_utility h = 0.6)
     (hotel_sortedResults HotelByScore [
        \<lparr>hotel_id = 1, rating = 4, stars = 4, price_per_night = 200,
          utility_score = Some \<lparr>total_score = 0.6, price_value = 0.5, location_score = 0.5,
            rating_score = 0.8, amenities_score = 0.5, score_recommendation = good\<rparr>\<rparr>, 
        \<lparr>hotel_id = 2, rating = 4, stars = 4, price_per_night = 100,
          utility_score = Some \<lparr>total_score = 0.6, price_value = 0.5, location_score = 0.5,
            rating_score = 0.8, amenities_score = 0.5, score_recommendation = good\<rparr>\<rparr>])
     = [
        \<lparr>hotel_id = 1, rating = 4, stars = 4, price_per_night = 200,
          utility_score = Some \<lparr>total_score = 0.6, price_value = 0.5, location_score = 0.5,
            rating_score = 0.8, amenities_score = 0.5, score_recommendation = good\<rparr>\<rparr>, 
        \<lparr>hotel_id = 2, rating = 4, stars = 4, price_per_night = 100,
          utility_score = Some \<lparr>total_score = 0.6, price_value = 0.5, location_score = 0.5,
            rating_score = 0.8, amenities_score = 0.5, score_recommendation = good\<rparr>\<rparr>]"
proof -
  have f: "filter (\<lambda>f. flight_utility f = 0.7) [
        \<lparr>flight_id = 3, price = 400, duration_minutes = None, stops = 0,
          goal_evaluation = None\<rparr>, 
        \<lparr>flight_id = 1, price = 500, duration_minutes = None, stops = 0,
          goal_evaluation = Some \<lparr>total_utility = 0.7, budget_constraint_met = True, price_score = 0.4,
               duration_score = 1, stops_score = 1, recommendation = good\<rparr>\<rparr>, 
        \<lparr>flight_id = 4, price = 450, duration_minutes = None, stops = 0,
          goal_evaluation = Some \<lparr>total_utility = 0.9, budget_constraint_met = True, price_score = 0.4,
               duration_score = 1, stops_score = 1, recommendation = good\<rparr>\<rparr>, 
        \<lparr>flight_id = 2, price = 300, duration_minutes = None, stops = 0,
          goal_evaluation = Some \<lparr>total_utility = 0.7, budget_constraint_met = True, price_score = 0.4,
               duration_score = 1, stops_score = 1, recommendation = good\<rparr>\<rparr>] = [
        \<lparr>flight_id = 1, price = 500, duration_minutes = None, stops = 0,
          goal_evaluation = Some \<lparr>total_utility = 0.7, budget_constraint_met = True, price_score = 0.4,
               duration_score = 1, stops_score = 1, recommendation = good\<rparr>\<rparr>, 
        \<lparr>flight_id = 2, price = 300, duration_minutes = None, stops = 0,
          goal_evaluation = Some \<lparr>total_utility = 0.7, budget_constraint_met = True, price_score = 0.4,
               duration_score = 1, stops_score = 1, recommendation = good\<rparr>\<rparr>]"
    by (simp add: flight_utility_def or_zero_def)
  have h: "filter (\<lambda>h. hotel_utility h = 0.6) [
        \<lparr>hotel_id = 1, rating = 4, stars = 4, price_per_night = 200,
          utility_score = Some \<lparr>total_score = 0.6, price_value = 0.5, location_score = 0.5,
            rating_score = 0.8, amenities_score = 0.5, score_recommendation = good\<rparr>\<rparr>, 
        \<lparr>hotel_id = 2, rating = 4, stars = 4, price_per_night = 100,
          utility_score = Some \<lparr>total_score = 0.6, price_value = 0.5, location_score = 0.5,
            rating_score = 0.8, amenities_score = 0.5, score_recommendation = good\<rparr>\<rparr>] = [
        \<lparr>hotel_id = 1, rating = 4, stars = 4, price_per_night = 200,
          utility_score = Some \<lparr>total_score = 0.6, price_value = 0.5, location_score = 0.5,
            rating_score = 0.8, amenities_score = 0.5, score_recommendation = good\<rparr>\<rparr>, 
        \<lparr>hotel_id = 2, rating = 4, stars = 4, price_per_night = 100,
          utility_score = Some \<lparr>total_score = 0.6, price_value = 0.5, location_score = 0.5,
            rating_score = 0.8, amenities_score = 0.5, score_recommendation = good\<rparr>\<rparr>]"
    by (simp add: hotel_utility_def or_zero_def)
  from results_ranked_by_score_stably [of "[
        \<lparr>flight_id = 3, price = 400, duration_minutes = None, stops = 0,
          goal_evaluation = None\<rparr>, 
        \<lparr>flight_id = 1, price = 500, duration_minutes = None, stops = 0,
          goal_evaluation = Some \<lparr>total_utility = 0.7, budget_constraint_met = True, price_score = 0.4,
               duration_score = 1, stops_score = 1, recommendation = good\<rparr>\<rparr>, 
        \<lparr>flight_id = 4, price = 450, duration_minutes = None, stops = 0,
          goal_evaluation = Some \<lparr>total_utility = 0.9, budget_constraint_met = True, price_score = 0.4,
               duration_score = 1, stops_score = 1, recommendation = good\<rparr>\<rparr>, 
        \<lparr>flight_id = 2, price = 300, duration_minutes = None, stops = 0,
          goal_evaluation = Some \<lparr>total_utility = 0.7, budget_constraint_met = True, price_score = 0.4,
               duration_score = 1, stops_score = 1, recommendation = good\<rparr>\<rparr>]" "0.7" "[
        \<lparr>hotel_id = 1, rating = 4, stars = 4, price_per_night = 200,
          utility_score = Some \<lparr>total_score = 0.6, price_value = 0.5, location_score = 0.5,
            rating_score = 0.8, amenities_score = 0.5, score_recommendation = good\<rparr>\<rparr>, 
        \<lparr>hotel_id = 2, rating = 4, stars = 4, price_per_night = 100,
          utility_score = Some \<lparr>total_score = 0.6, price_value = 0.5, location_score = 0.5,
            rating_score = 0.8, amenities_score = 0.5, score_recommendation = good\<rparr>\<rparr>]" "0.6"]
  show ?thesis
    unfolding f h by blast
qed

text \<open>
  Two flights of equal utility stay in their original order although the second is
  cheaper, where the order of the specification would put the cheaper one first.
\<close>

theorem score_ties_not_broken_by_price:
  "flight_sortedResults FlightByScore [
        \<lparr>flight_id = 1, price = 500, duration_minutes = None, stops = 0,
          goal_evaluation = Some \<lparr>total_utility = 0.7, budget_constraint_met = True, price_score = 0.4,
               duration_score = 1, stops_score = 1, recommendation = good\<rparr>\<rparr>, 
        \<lparr>flight_id = 2, price = 300, duration_minutes = None, stops = 0,
          goal_evaluation = Some \<lparr>total_utility = 0.7, budget_constraint_met = True, price_score = 0.4,
               duration_score = 1, stops_score = 1, recommendation = good\<rparr>\<rparr>] = [
        \<lparr>flight_id = 1, price = 500, duration_minutes = None, stops = 0,
          goal_evaluation = Some \<lparr>total_utility = 0.7, budget_constraint_met = True, price_score = 0.4,
               duration_score = 1, stops_score = 1, recommendation = good\<rparr>\<rparr>, 
        \<lparr>flight_id = 2, price = 300, duration_minutes = None, stops = 0,
          goal_evaluation = Some \<lparr>total_utility = 0.7, budget_constraint_met = True, price_score = 0.4,
               duration_score = 1, stops_score = 1, recommendation = good\<rparr>\<rparr>]
   \<and> spec_goes_before (
        \<lparr>flight_id = 2, price = 300, duration_minutes = None, stops = 0,
          goal_evaluation = Some \<lparr>total_utility = 0.7, budget_constraint_met = True, price_score = 0.4,
               duration_score = 1, stops_score = 1, recommendation = good\<rparr>\<rparr>) (
        \<lparr>flight_id = 1, price = 500, duration_minutes = None, stops = 0,
          goal_evaluation = Some \<lparr>total_utility = 0.7, budget_constraint_met = True, price_score = 0.4,
               duration_score = 1, stops_score = 1, recommendation = good\<rparr>\<rparr>)"
  by (simp add: flight_sortedResults_def array_sort_def flight_compare_def flight_utility_def
        or_zero_def spec_goes_before_def)


subsection \<open>The scoring engine\<close>

text \<open>
  C5. Whenever the computed score breakdown has the budget constraint not met, its
  recommendation is \<open>poor\<close>, whatever the component scores and the total utility are.
\<close>

theorem score_over_budget_is_poor:
  "\<not> budget_constraint_met (score priceRank durationRank candidate goalProfile)
     \<Longrightarrow> recommendation (score priceRank durationRank candidate goalProfile) = poor"
  by (simp add: score_def assign_tier_def Let_def)

theorem score_over_budget_is_poor_witness:
  "\<not> budget_constraint_met
       (score 0 0 \<lparr>flight_id = 1, price = 600, duration_minutes = Some 300, stops = 0,
                   goal_evaluation = None\<rparr>
          \<lparr>budgetMax = Some 500, preferredDurationMinutes = Some 300,
           weightPrice = 0.5, weightDuration = 0.2, weightStops = 0.3\<rparr>)
   \<and> recommendation
       (score 0 0 \<lparr>flight_id = 1, price = 600, duration_minutes = Some 300, stops = 0,
                   goal_evaluation = None\<rparr>
          \<lparr>budgetMax = Some 500, preferredDurationMinutes = Some 300,
           weightPrice = 0.5, weightDuration = 0.2, weightStops = 0.3\<rparr>) = poor"
proof -
  have h: "\<not> budget_constraint_met
       (score 0 0 \<lparr>flight_id = 1, price = 600, duration_minutes = Some 300, stops = 0,
                   goal_evaluation = None\<rparr>
          \<lparr>budgetMax = Some 500, preferredDurationMinutes = Some 300,
           weightPrice = 0.5, weightDuration = 0.2, weightStops = 0.3\<rparr>)"
    by (simp add: score_def Let_def)
  from h score_over_budget_is_poor [OF h] show ?thesis by blast
qed

text \<open>The first scenario of the specification: under budget, utility 0.7, tier \<open>good\<close>.\<close>

lemma score_scenario_under_budget: "recommendation
       (score 0 0 \<lparr>flight_id = 1, price = 450, duration_minutes = Some 300, stops = 0,
                   goal_evaluation = None\<rparr>
          \<lparr>budgetMax = Some 500, preferredDurationMinutes = Some 300,
           weightPrice = 0.5, weightDuration = 0.2, weightStops = 0.3\<rparr>) = good"
  by (simp add: score_def Let_def assign_tier_def clamp01_def)



subsection \<open>Logout\<close>

text \<open>
  C10. Every logout call whose server request settles and whose removal of the stored
  credentials succeeds removes the stored access token, refresh token and user data and
  resets the in-memory auth state to unauthenticated with no error, whether the server
  request succeeded or failed: a server error is swallowed and the call itself resolves.
  When the removal itself fails, the call rejects with that error and neither the
  storage nor the in-memory auth state is reset.
\<close>

theorem logout_clears_when_removal_succeeds:
  "(case logout (Some server) (Fulfilled ()) (st, a) of (r, st', a') \<Rightarrow>
     r = Some (Fulfilled ())
     \<and> st' AUTH_TOKEN = None \<and> st' REFRESH_TOKEN = None \<and> st' USER_DATA = None
     \<and> user a' = None \<and> tokens a' = None \<and> \<not> isAuthenticated a' \<and> error a' = None
     \<and> isLoading a' = isLoading a
     \<and> (\<forall>k. k \<notin> {AUTH_TOKEN, REFRESH_TOKEN, USER_DATA} \<longrightarrow> st' k = st k))
   \<and> logout (Some server) (Rejected e) (st, a) = (Some (Rejected e), st, a)"
  by (cases server) (auto simp: logout_def multiRemove_apply Let_def)

theorem logout_clears_when_removal_succeeds_witness:
  "''theme'' \<notin> {AUTH_TOKEN, REFRESH_TOKEN, USER_DATA} \<and>
   (case logout (Some (Rejected ''500'')) (Fulfilled ())
       ([AUTH_TOKEN \<mapsto> ''a1'', REFRESH_TOKEN \<mapsto> ''r1'', USER_DATA \<mapsto> ''u'', ''theme'' \<mapsto> ''dark''],
        \<lparr>user = Some ''u'', tokens = Some \<lparr>accessToken = ''a1'', refreshToken = ''r1''\<rparr>,
         isAuthenticated = True, isLoading = False, error = Some ''x''\<rparr>)
    of (r, st', a') \<Rightarrow>
      r = Some (Fulfilled () :: (string, unit) settled)
      \<and> st' AUTH_TOKEN = None \<and> st' REFRESH_TOKEN = None \<and> st' USER_DATA = None
      \<and> st' ''theme'' = Some ''dark''
      \<and> user a' = None \<and> tokens a' = None \<and> \<not> isAuthenticated a' \<and> error a' = None)"
proof -
  have k: "''theme'' \<notin> {AUTH_TOKEN, REFRESH_TOKEN, USER_DATA}"
    by (simp add: AUTH_TOKEN_def REFRESH_TOKEN_def USER_DATA_def)
  show ?thesis
    using k logout_clears_when_removal_succeeds [where server = "Rejected ''500''" and st =
       "[AUTH_TOKEN \<mapsto> ''a1'', REFRESH_TOKEN \<mapsto> ''r1'', USER_DATA \<mapsto> ''u'', ''theme'' \<mapsto> ''dark'']" and a =
       "\<lparr>user = Some ''u'', tokens = Some \<lparr>accessToken = ''a1'', refreshToken = ''r1''\<rparr>,
         isAuthenticated = True, isLoading = False, error = Some ''x''\<rparr>"]
    by (auto split: prod.splits)
qed

text \<open>While the server call has not settled, nothing has been cleared.\<close>

lemma logout_suspended_at_server_call: "logout None removal (st, a) = (None, st, a)"
  by (simp add: logout_def)

text \<open>
  A logout call that leaves everything in place: the server request fails, and the
  removal of the stored credentials fails too. The call rejects, the tokens are still
  stored and the store still says authenticated.
\<close>

theorem logout_keeps_credentials_when_removal_fails:
  "logout (Some (Rejected ''500'')) (Rejected ''storage failure'')
       ([AUTH_TOKEN \<mapsto> ''a1'', REFRESH_TOKEN \<mapsto> ''r1'', USER_DATA \<mapsto> ''u'', ''theme'' \<mapsto> ''dark''],
        \<lparr>user = Some ''u'', tokens = Some \<lparr>accessToken = ''a1'', refreshToken = ''r1''\<rparr>,
         isAuthenticated = True, isLoading = False, error = Some ''x''\<rparr>)
   = (Some (Rejected ''storage failure''),
      [AUTH_TOKEN \<mapsto> ''a1'', REFRESH_TOKEN \<mapsto> ''r1'', USER_DATA \<mapsto> ''u'', ''theme'' \<mapsto> ''dark''],
      \<lparr>user = Some ''u'', tokens = Some \<lparr>accessToken = ''a1'', refreshToken = ''r1''\<rparr>,
         isAuthenticated = True, isLoading = False, error = Some ''x''\<rparr>)
   \<and> isAuthenticated
        \<lparr>user = Some ''u'', tokens = Some \<lparr>accessToken = ''a1'', refreshToken = ''r1''\<rparr>,
         isAuthenticated = True, isLoading = False, error = Some ''x''\<rparr>"
  by (simp add: logout_def)

end
